theory Spec2Isabelle
  imports Main "HOL-Library.Multiset"
begin

section \<open>Data model of \<open>src/index.tsx\<close>\<close>

text \<open>
  The user-lookup response is the untyped result of \<open>res.json()\<close>: the code reads five of
  its fields and never checks their types. A field is therefore a JavaScript value; a
  field the response does not have reads as \<open>undefined\<close>. Numbers that occur here are
  identifiers and counts, modelled as integers.
\<close>

datatype jsval = JUndefined | JNull | JBool bool | JNum int | JStr string

text \<open>The type \<open>string | number\<close> of the \<open>id\<close> field of \<open>ResRepo\<close> and \<open>Repo\<close>.\<close>

datatype ident = IdStr string | IdNum int

fun ident_val :: "ident \<Rightarrow> jsval" where
  "ident_val (IdStr s) = JStr s"
| "ident_val (IdNum n) = JNum n"

text \<open>\<open>interface ResRepo\<close> (fields \<open>id\<close>, \<open>html_url\<close>, \<open>name\<close>, \<open>stargazers_count\<close>).\<close>

record ResRepo =
  rr_id :: ident
  html_url :: string
  rr_name :: string
  stargazers_count :: int

text \<open>\<open>interface Repo\<close> (fields \<open>id\<close>, \<open>name\<close>, \<open>url\<close>).\<close>

record Repo =
  repo_id :: ident
  repo_name :: string
  url :: string

text \<open>
  \<open>class User\<close>: the constructor stores its three arguments. They are declared
  \<open>string\<close>, but \<open>fetchUser\<close> passes fields of the untyped response unchecked.
\<close>

datatype User = User (avatarUrl: jsval) (name: jsval) (bio: jsval)

text \<open>The union \<open>User | NotFound | Nothing\<close> of the \<open>user\<close> field of the state.\<close>

datatype result = OfUser User | NotFound | Nothing

text \<open>\<open>interface UserVisitor<T>\<close> and the three \<open>accept\<close> methods.\<close>

record 'a UserVisitor =
  visitUser :: "User \<Rightarrow> 'a"
  visitNotFound :: 'a
  visitNothing :: 'a

fun accept :: "result \<Rightarrow> 'a UserVisitor \<Rightarrow> 'a" where
  "accept (OfUser u) visitor = visitUser visitor u"
| "accept NotFound visitor = visitNotFound visitor"
| "accept Nothing visitor = visitNothing visitor"

section \<open>Views\<close>

text \<open>
  A \<open>React.ReactNode\<close> as the visitors build it: a primitive value (a string child, an
  expression child, \<open>null\<close>), an element with its props and children, a fragment, or an
  array of nodes (the result of \<open>repos.map\<close>).
\<close>

datatype node =
    Value jsval
  | Element string "(string \<times> jsval) list" "node list"
  | Fragment "node list"
  | NodeList "node list"

definition userRenderVisitor :: "node UserVisitor" where
  "userRenderVisitor =
     \<lparr> visitUser = (\<lambda>user. Fragment
         [ Element ''img''
             [(''className'', JStr ''user-avatar''), (''src'', avatarUrl user), (''alt'', JStr '''')] [],
           Element ''div'' [(''className'', JStr ''user-name'')] [Value (name user)],
           Element ''div'' [(''className'', JStr ''user-bio'')] [Value (bio user)] ]),
       visitNotFound =
         Element ''div'' [(''className'', JStr ''warning-message'')] [Value (JStr ''User not found.'')],
       visitNothing =
         Element ''div'' [(''className'', JStr ''warning-message'')]
           [Value (JStr ''You haven't made any requests yet.'')] \<rparr>"

definition repo_link :: "Repo \<Rightarrow> node" where
  "repo_link repo =
     Element ''a''
       [(''className'', JStr ''repo-link''), (''key'', ident_val (repo_id repo)), (''href'', JStr (url repo))]
       [Value (JStr (repo_name repo))]"

definition ReposRenderVisitor :: "Repo list \<Rightarrow> node UserVisitor" where
  "ReposRenderVisitor repos =
     \<lparr> visitUser = (\<lambda>_. Fragment
         [ Element ''div'' [(''className'', JStr ''repo-section-title'')] [Value (JStr ''Top repositories'')],
           NodeList (map repo_link repos) ]),
       visitNotFound = Value JNull,
       visitNothing = Value JNull \<rparr>"

section \<open>Application state and the two fetch completions\<close>

record AppState =
  user :: result
  repos :: "Repo list"

definition initial_state :: AppState where
  "initial_state = \<lparr> user = Nothing, repos = [] \<rparr>"

text \<open>
  The part of \<open>App.render\<close> that depends on the state: the \<open>user-section\<close> with the two
  visitors applied to \<open>state.user\<close>. The search form above it is the same in every state.
\<close>

definition render_section :: "AppState \<Rightarrow> node" where
  "render_section st =
     Element ''section'' [(''className'', JStr ''user-section'')]
       [ accept (user st) userRenderVisitor,
         accept (user st) (ReposRenderVisitor (repos st)) ]"

text \<open>The fields of the user-lookup response that \<open>fetchUser\<close> reads.\<close>

record user_response =
  message :: jsval
  avatar_url :: jsval
  res_name :: jsval
  res_bio :: jsval
  repos_url :: jsval

text \<open>
  A request in flight: \<open>fetch\<close> has been called and the \<open>then\<close> callbacks of
  \<open>fetchUser\<close>, respectively of \<open>fetchRepos\<close>, wait for the response.
\<close>

datatype request = UserFetch string | ReposFetch jsval

definition fetchUser :: "string \<Rightarrow> request" where
  "fetchUser username = UserFetch (''https://api.github.com/users/'' @ username)"

definition fetchRepos :: "jsval \<Rightarrow> request" where
  "fetchRepos reposUrl = ReposFetch reposUrl"

text \<open>
  The callback of \<open>fetchUser\<close>, run on the parsed response: the new state and the
  request it issues, if any. \<open>setState\<close> with a partial object replaces the fields given
  and keeps the others.
\<close>

definition fetchUser_then :: "user_response \<Rightarrow> AppState \<Rightarrow> AppState \<times> request option" where
  "fetchUser_then res st =
     (if message res = JStr ''Not Found''
      then (st\<lparr>user := NotFound\<rparr>, None)
      else (st\<lparr>user := OfUser (User (avatar_url res) (res_name res) (res_bio res))\<rparr>,
            Some (fetchRepos (repos_url res))))"

text \<open>
  \<open>Array.prototype.sort\<close> with a comparison function, a built-in of the language. For a
  consistent comparator ECMAScript (2019 and later) fixes the result: ordered by the
  comparator, with elements that compare equal kept in their original order. Insertion
  from the right computes this list: an element goes in front of the first one it does
  not have to follow. The comparator returns a number; only its sign is used.
\<close>

fun insert_by :: "('a \<Rightarrow> 'a \<Rightarrow> int) \<Rightarrow> 'a \<Rightarrow> 'a list \<Rightarrow> 'a list" where
  "insert_by cmp x [] = [x]"
| "insert_by cmp x (y # ys) = (if cmp x y \<le> 0 then x # y # ys else y # insert_by cmp x ys)"

definition array_sort :: "('a \<Rightarrow> 'a \<Rightarrow> int) \<Rightarrow> 'a list \<Rightarrow> 'a list" where
  "array_sort cmp xs = foldr (insert_by cmp) xs []"

text \<open>The comparator of \<open>fetchRepos\<close>: \<open>(a, b) => b.stargazers_count - a.stargazers_count\<close>.\<close>

definition by_stars :: "ResRepo \<Rightarrow> ResRepo \<Rightarrow> int" where
  "by_stars a b = stargazers_count b - stargazers_count a"

definition to_Repo :: "ResRepo \<Rightarrow> Repo" where
  "to_Repo repo = \<lparr> repo_id = rr_id repo, repo_name = rr_name repo, url = html_url repo \<rparr>"

text \<open>The callback of \<open>fetchRepos\<close>: \<open>slice\<close>, \<open>sort\<close>, \<open>map\<close>, \<open>slice(0, 3)\<close>, \<open>setState\<close>.\<close>

definition fetchRepos_then :: "ResRepo list \<Rightarrow> AppState \<Rightarrow> AppState" where
  "fetchRepos_then res st =
     (let repos = take 3 (map to_Repo (array_sort by_stars res))
      in st\<lparr>repos := repos\<rparr>)"

section \<open>Submissions and completions as events\<close>

text \<open>
  The component's state together with the requests in flight. Nothing is cancelled: every
  submission adds a request, and each response is handled when it arrives, in any order.
\<close>

record config =
  app :: AppState
  inflight :: "request list"

definition initial_config :: config where
  "initial_config = \<lparr> app = initial_state, inflight = [] \<rparr>"

text \<open>
  \<open>submitForm\<close>, given the value of the field \<open>search-term\<close> of the submitted form:
  it calls \<open>fetchUser\<close>, which only issues the request.
\<close>

definition submitForm :: "string \<Rightarrow> config \<Rightarrow> config" where
  "submitForm username c = c\<lparr>inflight := inflight c @ [fetchUser username]\<rparr>"

definition settle :: "nat \<Rightarrow> request list \<Rightarrow> request list" where
  "settle i rs = take i rs @ drop (Suc i) rs"

text \<open>
  What can happen: a submission; the response to the \<open>i\<close>-th request in flight arrives
  and its callback runs; or that request fails (network error, malformed JSON), which
  rejects the promise: no callback runs and the state stays as it is.
\<close>

datatype event =
    Submit string
  | UserResponse nat user_response
  | ReposResponse nat "ResRepo list"
  | Failure nat

fun step :: "event \<Rightarrow> config \<Rightarrow> config option" where
  "step (Submit username) c = Some (submitForm username c)"
| "step (UserResponse i res) c =
     (if i < length (inflight c) then
        (case inflight c ! i of
           UserFetch _ \<Rightarrow>
             (case fetchUser_then res (app c) of
                (st, issued) \<Rightarrow>
                  Some \<lparr> app = st,
                         inflight = settle i (inflight c) @ (case issued of None \<Rightarrow> [] | Some r \<Rightarrow> [r]) \<rparr>)
         | ReposFetch _ \<Rightarrow> None)
      else None)"
| "step (ReposResponse i res) c =
     (if i < length (inflight c) then
        (case inflight c ! i of
           UserFetch _ \<Rightarrow> None
         | ReposFetch _ \<Rightarrow>
             Some \<lparr> app = fetchRepos_then res (app c), inflight = settle i (inflight c) \<rparr>)
      else None)"
| "step (Failure i) c =
     (if i < length (inflight c) then Some (c\<lparr>inflight := settle i (inflight c)\<rparr>) else None)"

fun run :: "event list \<Rightarrow> config \<Rightarrow> config option" where
  "run [] c = Some c"
| "run (e # es) c = (case step e c of None \<Rightarrow> None | Some c' \<Rightarrow> run es c')"

text \<open>The events that run no callback of the component.\<close>

fun quiet :: "event \<Rightarrow> bool" where
  "quiet (Submit _) = True"
| "quiet (Failure _) = True"
| "quiet (UserResponse _ _) = False"
| "quiet (ReposResponse _ _) = False"

text \<open>
  Remote endpoints that answer the same request the same way: a function from the URL to
  the response, \<open>None\<close> when the request fails.
\<close>

record endpoints =
  user_endpoint :: "string \<Rightarrow> user_response option"
  repos_endpoint :: "jsval \<Rightarrow> ResRepo list option"

fun answer :: "endpoints \<Rightarrow> request \<Rightarrow> nat \<Rightarrow> event" where
  "answer ep (UserFetch u) i =
     (case user_endpoint ep u of None \<Rightarrow> Failure i | Some res \<Rightarrow> UserResponse i res)"
| "answer ep (ReposFetch u) i =
     (case repos_endpoint ep u of None \<Rightarrow> Failure i | Some res \<Rightarrow> ReposResponse i res)"

text \<open>The oldest request in flight, if there is one, is answered by its endpoint.\<close>

definition resolve_first :: "endpoints \<Rightarrow> config \<Rightarrow> config" where
  "resolve_first ep c =
     (case inflight c of
        [] \<Rightarrow> c
      | r # _ \<Rightarrow> (case step (answer ep r 0) c of None \<Rightarrow> c | Some c' \<Rightarrow> c'))"

text \<open>
  One submission carried to the end: the user lookup is answered, then the repository
  fetch it may have issued.
\<close>

definition submit_resolved :: "endpoints \<Rightarrow> string \<Rightarrow> config \<Rightarrow> config" where
  "submit_resolved ep username c = resolve_first ep (resolve_first ep (submitForm username c))"

text \<open>The \<open>repo-link\<close> elements anywhere in a rendered tree.\<close>

fun repo_links :: "node \<Rightarrow> node list" where
  "repo_links (Value v) = []"
| "repo_links (Element tag props kids) =
     (if map_of props ''className'' = Some (JStr ''repo-link'') then [Element tag props kids] else [])
       @ concat (map repo_links kids)"
| "repo_links (Fragment kids) = concat (map repo_links kids)"
| "repo_links (NodeList kids) = concat (map repo_links kids)"

section \<open>The sort of \<open>fetchRepos\<close>\<close>

text \<open>
  With the comparator of \<open>fetchRepos\<close>, \<open>array_sort\<close> is the library's stable sort on the
  negated star count; its three characteristic properties follow.
\<close>

lemma insert_by_stars: "insert_by by_stars x ys = insort_key (\<lambda>r. - stargazers_count r) x ys"
  by (induction ys) (simp_all add: by_stars_def)

lemma array_sort_by_stars: "array_sort by_stars xs = sort_key (\<lambda>r. - stargazers_count r) xs"
  by (induction xs) (simp_all add: array_sort_def sort_key_def insert_by_stars)

lemma mset_array_sort: "mset (array_sort by_stars xs) = mset xs"
  by (simp add: array_sort_by_stars)

lemma descending_array_sort:
  "sorted_wrt (\<lambda>a b. stargazers_count b \<le> stargazers_count a) (array_sort by_stars xs)"
proof -
  have "sorted (map (\<lambda>r. - stargazers_count r) (array_sort by_stars xs))"
    by (simp add: array_sort_by_stars)
  then show ?thesis
    by (simp add: sorted_map)
qed

lemma stable_array_sort:
  "filter (\<lambda>r. stargazers_count r = k) (array_sort by_stars xs) = filter (\<lambda>r. stargazers_count r = k) xs"
proof -
  have "filter (\<lambda>r. - stargazers_count r = - k) (sort_key (\<lambda>r. - stargazers_count r) xs)
      = filter (\<lambda>r. - stargazers_count r = - k) xs"
    by (rule sort_key_stable)
  then show ?thesis
    by (simp add: array_sort_by_stars)
qed

text \<open>
  A permutation of the input that is descending by star count and keeps the input order
  among equal counts is unique: it is the list \<open>fetchRepos\<close> sorts to.
\<close>

lemma stable_descending_unique:
  assumes "mset s = mset xs"
    and "sorted_wrt (\<lambda>a b. stargazers_count b \<le> stargazers_count a) s"
    and "\<And>k. filter (\<lambda>r. stargazers_count r = k) s = filter (\<lambda>r. stargazers_count r = k) xs"
  shows "s = array_sort by_stars xs"
proof -
  have "sort_key (\<lambda>r. - stargazers_count r) xs = s"
  proof (rule properties_for_sort_key)
    show "mset s = mset xs" by (rule assms(1))
    show "sorted (map (\<lambda>r. - stargazers_count r) s)"
      using assms(2) by (simp add: sorted_map)
    fix k
    have "filter (\<lambda>x. stargazers_count x = stargazers_count k) s
        = filter (\<lambda>x. stargazers_count x = stargazers_count k) xs"
      by (rule assms(3))
    then show "filter (\<lambda>x. - stargazers_count k = - stargazers_count x) s
        = filter (\<lambda>x. - stargazers_count k = - stargazers_count x) xs"
      by (simp add: eq_commute)
  qed
  then show ?thesis
    by (simp add: array_sort_by_stars)
qed

text \<open>
  C1: for every response \<open>res\<close>, the repo list that \<open>fetchRepos\<close> stores is the first three
  entries of \<open>res\<close> sorted descending by \<open>stargazers_count\<close>, equal counts in input order,
  each mapped to \<open>{id, name, url = html_url}\<close>. For star counts \<open>[5, 20, 20, 1, 9]\<close> these
  are the second, third and fifth record.
\<close>

theorem fetchRepos_sorted_top3:
  "(\<exists>s. mset s = mset res
      \<and> sorted_wrt (\<lambda>a b. stargazers_count b \<le> stargazers_count a) s
      \<and> (\<forall>k. filter (\<lambda>r. stargazers_count r = k) s = filter (\<lambda>r. stargazers_count r = k) res)
      \<and> repos (fetchRepos_then res st)
          = take 3 (map (\<lambda>r. \<lparr> repo_id = rr_id r, repo_name = rr_name r, url = html_url r \<rparr>) s))
   \<and> repos (fetchRepos_then
        [ a\<lparr>stargazers_count := 5\<rparr>, b\<lparr>stargazers_count := 20\<rparr>, c\<lparr>stargazers_count := 20\<rparr>,
          d\<lparr>stargazers_count := 1\<rparr>, e\<lparr>stargazers_count := 9\<rparr> ] st)
       = [ \<lparr> repo_id = rr_id b, repo_name = rr_name b, url = html_url b \<rparr>,
           \<lparr> repo_id = rr_id c, repo_name = rr_name c, url = html_url c \<rparr>,
           \<lparr> repo_id = rr_id e, repo_name = rr_name e, url = html_url e \<rparr> ]"
proof (intro conjI)
  have "repos (fetchRepos_then res st) = take 3 (map to_Repo (array_sort by_stars res))"
    by (simp add: fetchRepos_then_def)
  moreover have "to_Repo = (\<lambda>r. \<lparr> repo_id = rr_id r, repo_name = rr_name r, url = html_url r \<rparr>)"
    by (intro ext) (simp add: to_Repo_def)
  ultimately show "\<exists>s. mset s = mset res
      \<and> sorted_wrt (\<lambda>a b. stargazers_count b \<le> stargazers_count a) s
      \<and> (\<forall>k. filter (\<lambda>r. stargazers_count r = k) s = filter (\<lambda>r. stargazers_count r = k) res)
      \<and> repos (fetchRepos_then res st)
          = take 3 (map (\<lambda>r. \<lparr> repo_id = rr_id r, repo_name = rr_name r, url = html_url r \<rparr>) s)"
    using mset_array_sort [of res] descending_array_sort [of res] stable_array_sort [of _ res]
    by (intro exI [of _ "array_sort by_stars res"]) simp
next
  show "repos (fetchRepos_then
        [ a\<lparr>stargazers_count := 5\<rparr>, b\<lparr>stargazers_count := 20\<rparr>, c\<lparr>stargazers_count := 20\<rparr>,
          d\<lparr>stargazers_count := 1\<rparr>, e\<lparr>stargazers_count := 9\<rparr> ] st)
       = [ \<lparr> repo_id = rr_id b, repo_name = rr_name b, url = html_url b \<rparr>,
           \<lparr> repo_id = rr_id c, repo_name = rr_name c, url = html_url c \<rparr>,
           \<lparr> repo_id = rr_id e, repo_name = rr_name e, url = html_url e \<rparr> ]"
    by (simp add: fetchRepos_then_def array_sort_def by_stars_def to_Repo_def)
qed

section \<open>Frame of \<open>fetchRepos\<close>, initial state, not-found views\<close>

text \<open>
  C8: the completion of \<open>fetchRepos\<close> replaces the \<open>repos\<close> field by the summary list
  computed from the response, whatever the state was, and changes nothing else: the
  \<open>user\<close> field is the one of the state before.
\<close>

theorem fetchRepos_frame:
  "user (fetchRepos_then res st) = user st
   \<and> repos (fetchRepos_then res st) = take 3 (map to_Repo (array_sort by_stars res))
   \<and> fetchRepos_then res st = st\<lparr>repos := repos (fetchRepos_then res st')\<rparr>"
  by (simp add: fetchRepos_then_def)

text \<open>
  C6: the initial state has \<open>user\<close> equal to \<open>Nothing\<close> and an empty repo list, and its
  profile view is the message "You haven't made any requests yet.".
\<close>

theorem initial_state_view:
  "user initial_state = Nothing
   \<and> repos initial_state = []
   \<and> accept (user initial_state) userRenderVisitor
       = Element ''div'' [(''className'', JStr ''warning-message'')]
           [Value (JStr ''You haven't made any requests yet.'')]"
  by (simp add: initial_state_def userRenderVisitor_def)

text \<open>
  C5: in every state whose \<open>user\<close> is \<open>NotFound\<close>, whatever the repo list holds, the
  profile visitor renders the message "User not found." and the repo-list visitor
  renders \<open>null\<close>.
\<close>

theorem not_found_views:
  "user st = NotFound \<Longrightarrow>
     accept (user st) userRenderVisitor
       = Element ''div'' [(''className'', JStr ''warning-message'')] [Value (JStr ''User not found.'')]
     \<and> accept (user st) (ReposRenderVisitor (repos st)) = Value JNull"
  by (simp add: userRenderVisitor_def ReposRenderVisitor_def)

theorem not_found_views_witness:
  "user \<lparr> user = NotFound,
          repos = [\<lparr> repo_id = IdNum 7, repo_name = ''hello'', url = ''https://example.org/hello'' \<rparr>] \<rparr>
     = NotFound
   \<and> accept (user \<lparr> user = NotFound,
          repos = [\<lparr> repo_id = IdNum 7, repo_name = ''hello'', url = ''https://example.org/hello'' \<rparr>] \<rparr>)
        userRenderVisitor
       = Element ''div'' [(''className'', JStr ''warning-message'')] [Value (JStr ''User not found.'')]
   \<and> accept (user \<lparr> user = NotFound,
          repos = [\<lparr> repo_id = IdNum 7, repo_name = ''hello'', url = ''https://example.org/hello'' \<rparr>] \<rparr>)
        (ReposRenderVisitor (repos \<lparr> user = NotFound,
          repos = [\<lparr> repo_id = IdNum 7, repo_name = ''hello'', url = ''https://example.org/hello'' \<rparr>] \<rparr>))
       = Value JNull"
  using not_found_views
    [of "\<lparr> user = NotFound,
           repos = [\<lparr> repo_id = IdNum 7, repo_name = ''hello'', url = ''https://example.org/hello'' \<rparr>] \<rparr>"]
  by simp

section \<open>Events: what each kind of step does to the state\<close>

lemma step_keeps_top3:
  "step e c = Some c' \<Longrightarrow> length (repos (app c)) \<le> 3 \<Longrightarrow> length (repos (app c')) \<le> 3"
  by (cases e)
     (auto simp: submitForm_def fetchUser_then_def fetchRepos_then_def
           split: if_splits request.splits)

lemma run_keeps_top3:
  "run es c = Some c' \<Longrightarrow> length (repos (app c)) \<le> 3 \<Longrightarrow> length (repos (app c')) \<le> 3"
proof (induction es arbitrary: c)
  case Nil
  then show ?case by simp
next
  case (Cons e es)
  then obtain c1 where s: "step e c = Some c1" and r: "run es c1 = Some c'"
    by (auto split: option.splits)
  from s Cons.prems(2) have "length (repos (app c1)) \<le> 3"
    by (rule step_keeps_top3)
  with r show ?case
    by (rule Cons.IH)
qed

lemma step_quiet:
  "step e c = Some c' \<Longrightarrow> quiet e \<Longrightarrow> app c' = app c"
  by (cases e) (auto simp: submitForm_def split: if_splits)

lemma run_quiet:
  "run es c = Some c' \<Longrightarrow> list_all quiet es \<Longrightarrow> app c' = app c"
proof (induction es arbitrary: c)
  case Nil
  then show ?case by simp
next
  case (Cons e es)
  then obtain c1 where s: "step e c = Some c1" and r: "run es c1 = Some c'"
    by (auto split: option.splits)
  from Cons.prems(2) have q: "quiet e" and qs: "list_all quiet es"
    by simp_all
  from s q have "app c1 = app c"
    by (rule step_quiet)
  moreover from r qs have "app c' = app c1"
    by (rule Cons.IH)
  ultimately show ?case by simp
qed

lemma step_UserResponse:
  "step (UserResponse i res) c = Some c' \<Longrightarrow>
     app c' = fst (fetchUser_then res (app c))
     \<and> inflight c' = settle i (inflight c)
          @ (case snd (fetchUser_then res (app c)) of None \<Rightarrow> [] | Some r \<Rightarrow> [r])"
  by (auto split: if_splits request.splits prod.splits)

lemma repo_links_of_links: "concat (map (repo_links \<circ> repo_link) rs) = map repo_link rs"
  by (induction rs) (simp_all add: repo_link_def)

lemma repo_links_section:
  "repo_links (render_section st) = (case user st of OfUser u \<Rightarrow> map repo_link (repos st) | _ \<Rightarrow> [])"
  by (cases "user st")
     (simp_all add: render_section_def userRenderVisitor_def ReposRenderVisitor_def repo_links_of_links)

section \<open>The callback of \<open>fetchUser\<close>\<close>

text \<open>
  C2: \<open>fetchUser\<close> takes the response for not-found exactly when its \<open>message\<close> is the
  string "Not Found": exactly then the new \<open>user\<close> is \<open>NotFound\<close>, and exactly then no
  request is issued. In that case the state changes in \<open>user\<close> only and the requests in
  flight lose the answered one and gain none.
\<close>

theorem fetchUser_not_found:
  "(user (fst (fetchUser_then res st)) = NotFound) = (message res = JStr ''Not Found'')
   \<and> (snd (fetchUser_then res st) = None) = (message res = JStr ''Not Found'')
   \<and> (message res = JStr ''Not Found'' \<longrightarrow>
        fetchUser_then res st = (st\<lparr>user := NotFound\<rparr>, None)
        \<and> (step (UserResponse i res) c = Some c' \<longrightarrow>
             app c' = (app c)\<lparr>user := NotFound\<rparr> \<and> inflight c' = settle i (inflight c)))"
  by (auto simp: fetchUser_then_def split: if_splits request.splits)

theorem fetchUser_not_found_witness:
  "message (\<lparr> message = JStr ''Not Found'', avatar_url = JUndefined, res_name = JUndefined,
         res_bio = JUndefined, repos_url = JUndefined \<rparr>) = JStr ''Not Found''
   \<and> step (UserResponse 0 (\<lparr> message = JStr ''Not Found'', avatar_url = JUndefined, res_name = JUndefined,
         res_bio = JUndefined, repos_url = JUndefined \<rparr>))
        \<lparr> app = initial_state, inflight = [fetchUser ''octocat''] \<rparr>
       = Some \<lparr> app = \<lparr> user = NotFound, repos = [] \<rparr>, inflight = [] \<rparr>
   \<and> user (fst (fetchUser_then (\<lparr> message = JStr ''Not Found'', avatar_url = JUndefined, res_name = JUndefined,
         res_bio = JUndefined, repos_url = JUndefined \<rparr>) initial_state)) = NotFound
   \<and> snd (fetchUser_then (\<lparr> message = JStr ''Not Found'', avatar_url = JUndefined, res_name = JUndefined,
         res_bio = JUndefined, repos_url = JUndefined \<rparr>) initial_state) = None
   \<and> fetchUser_then (\<lparr> message = JStr ''Not Found'', avatar_url = JUndefined, res_name = JUndefined,
         res_bio = JUndefined, repos_url = JUndefined \<rparr>) initial_state = (initial_state\<lparr>user := NotFound\<rparr>, None)"
proof -
  have h1: "message (\<lparr> message = JStr ''Not Found'', avatar_url = JUndefined, res_name = JUndefined,
         res_bio = JUndefined, repos_url = JUndefined \<rparr>) = JStr ''Not Found''"
    by simp
  have h2: "step (UserResponse 0 (\<lparr> message = JStr ''Not Found'', avatar_url = JUndefined, res_name = JUndefined,
         res_bio = JUndefined, repos_url = JUndefined \<rparr>))
        \<lparr> app = initial_state, inflight = [fetchUser ''octocat''] \<rparr>
       = Some \<lparr> app = \<lparr> user = NotFound, repos = [] \<rparr>, inflight = [] \<rparr>"
    by (simp add: fetchUser_def fetchUser_then_def settle_def initial_state_def)
  show ?thesis
    using h1 h2
      fetchUser_not_found
        [of "\<lparr> message = JStr ''Not Found'', avatar_url = JUndefined, res_name = JUndefined,
         res_bio = JUndefined, repos_url = JUndefined \<rparr>" initial_state 0
            "\<lparr> app = initial_state, inflight = [fetchUser ''octocat''] \<rparr>"
            "\<lparr> app = \<lparr> user = NotFound, repos = [] \<rparr>, inflight = [] \<rparr>"]
    by simp
qed

text \<open>
  C3: for a response whose \<open>message\<close> is not the string "Not Found", the callback sets
  \<open>user\<close> to a \<open>User\<close> built from the response's \<open>avatar_url\<close>, \<open>name\<close> and \<open>bio\<close>,
  changes nothing else, and calls \<open>fetchRepos\<close> with the response's \<open>repos_url\<close>: that
  request joins the requests in flight.
\<close>

theorem fetchUser_found:
  "message res \<noteq> JStr ''Not Found'' \<Longrightarrow>
     fetchUser_then res st
       = (st\<lparr>user := OfUser (User (avatar_url res) (res_name res) (res_bio res))\<rparr>,
          Some (fetchRepos (repos_url res)))
     \<and> (step (UserResponse i res) c = Some c' \<longrightarrow>
          app c' = (app c)\<lparr>user := OfUser (User (avatar_url res) (res_name res) (res_bio res))\<rparr>
          \<and> inflight c' = settle i (inflight c) @ [fetchRepos (repos_url res)])"
  by (auto simp: fetchUser_then_def split: if_splits request.splits)

theorem fetchUser_found_witness:
  "message (\<lparr> message = JUndefined, avatar_url = JStr ''https://example.org/octocat.png'',
         res_name = JStr ''The Octocat'', res_bio = JNull,
         repos_url = JStr ''https://api.github.com/users/octocat/repos'' \<rparr>) \<noteq> JStr ''Not Found''
   \<and> step (UserResponse 0 (\<lparr> message = JUndefined, avatar_url = JStr ''https://example.org/octocat.png'',
         res_name = JStr ''The Octocat'', res_bio = JNull,
         repos_url = JStr ''https://api.github.com/users/octocat/repos'' \<rparr>))
        \<lparr> app = initial_state, inflight = [fetchUser ''octocat''] \<rparr>
       = Some \<lparr> app = \<lparr> user = OfUser (User (JStr ''https://example.org/octocat.png'')
                                              (JStr ''The Octocat'') JNull),
                         repos = [] \<rparr>,
                 inflight = [ReposFetch (JStr ''https://api.github.com/users/octocat/repos'')] \<rparr>
   \<and> fetchUser_then (\<lparr> message = JUndefined, avatar_url = JStr ''https://example.org/octocat.png'',
         res_name = JStr ''The Octocat'', res_bio = JNull,
         repos_url = JStr ''https://api.github.com/users/octocat/repos'' \<rparr>) initial_state
       = (initial_state\<lparr>user := OfUser (User (JStr ''https://example.org/octocat.png'')
                                             (JStr ''The Octocat'') JNull)\<rparr>,
          Some (fetchRepos (JStr ''https://api.github.com/users/octocat/repos'')))"
proof -
  have h1: "message (\<lparr> message = JUndefined, avatar_url = JStr ''https://example.org/octocat.png'',
         res_name = JStr ''The Octocat'', res_bio = JNull,
         repos_url = JStr ''https://api.github.com/users/octocat/repos'' \<rparr>) \<noteq> JStr ''Not Found''"
    by simp
  have h2: "step (UserResponse 0 (\<lparr> message = JUndefined, avatar_url = JStr ''https://example.org/octocat.png'',
         res_name = JStr ''The Octocat'', res_bio = JNull,
         repos_url = JStr ''https://api.github.com/users/octocat/repos'' \<rparr>))
        \<lparr> app = initial_state, inflight = [fetchUser ''octocat''] \<rparr>
       = Some \<lparr> app = \<lparr> user = OfUser (User (JStr ''https://example.org/octocat.png'')
                                              (JStr ''The Octocat'') JNull),
                         repos = [] \<rparr>,
                 inflight = [ReposFetch (JStr ''https://api.github.com/users/octocat/repos'')] \<rparr>"
    by (simp add: fetchUser_def fetchRepos_def fetchUser_then_def settle_def initial_state_def)
  show ?thesis
    using h1 h2
      fetchUser_found
        [OF h1, of initial_state 0
            "\<lparr> app = initial_state, inflight = [fetchUser ''octocat''] \<rparr>"
            "\<lparr> app = \<lparr> user = OfUser (User (JStr ''https://example.org/octocat.png'')
                                              (JStr ''The Octocat'') JNull),
                         repos = [] \<rparr>,
                 inflight = [ReposFetch (JStr ''https://api.github.com/users/octocat/repos'')] \<rparr>"]
    by simp
qed

text \<open>
  C10: on a not-found response the callback leaves the \<open>repos\<close> field as it was. Summaries
  stored by an earlier lookup stay in the state; the repo-list visitor renders \<open>null\<close>
  for them.
\<close>

theorem not_found_keeps_repos:
  "message res = JStr ''Not Found'' \<Longrightarrow>
     repos (fst (fetchUser_then res st)) = repos st
     \<and> accept (user (fst (fetchUser_then res st)))
          (ReposRenderVisitor (repos (fst (fetchUser_then res st)))) = Value JNull
     \<and> (step (UserResponse i res) c = Some c' \<longrightarrow> repos (app c') = repos (app c))"
  by (auto simp: fetchUser_then_def ReposRenderVisitor_def split: if_splits request.splits)

theorem not_found_keeps_repos_witness:
  "message (\<lparr> message = JStr ''Not Found'', avatar_url = JUndefined, res_name = JUndefined,
         res_bio = JUndefined, repos_url = JUndefined \<rparr>) = JStr ''Not Found''
   \<and> step (UserResponse 0 (\<lparr> message = JStr ''Not Found'', avatar_url = JUndefined, res_name = JUndefined,
         res_bio = JUndefined, repos_url = JUndefined \<rparr>))
        \<lparr> app = (\<lparr> user = OfUser (User (JStr ''https://example.org/octocat.png'') (JStr ''The Octocat'') JNull),
            repos = [\<lparr> repo_id = IdNum 7, repo_name = ''hello'', url = ''https://example.org/hello'' \<rparr>] \<rparr>), inflight = [fetchUser ''nobody''] \<rparr>
       = Some \<lparr> app = (\<lparr> user = OfUser (User (JStr ''https://example.org/octocat.png'') (JStr ''The Octocat'') JNull),
            repos = [\<lparr> repo_id = IdNum 7, repo_name = ''hello'', url = ''https://example.org/hello'' \<rparr>] \<rparr>)\<lparr>user := NotFound\<rparr>, inflight = [] \<rparr>
   \<and> repos (fst (fetchUser_then (\<lparr> message = JStr ''Not Found'', avatar_url = JUndefined, res_name = JUndefined,
         res_bio = JUndefined, repos_url = JUndefined \<rparr>) (\<lparr> user = OfUser (User (JStr ''https://example.org/octocat.png'') (JStr ''The Octocat'') JNull),
            repos = [\<lparr> repo_id = IdNum 7, repo_name = ''hello'', url = ''https://example.org/hello'' \<rparr>] \<rparr>)))
       = [\<lparr> repo_id = IdNum 7, repo_name = ''hello'', url = ''https://example.org/hello'' \<rparr>]
   \<and> accept (user (fst (fetchUser_then (\<lparr> message = JStr ''Not Found'', avatar_url = JUndefined, res_name = JUndefined,
         res_bio = JUndefined, repos_url = JUndefined \<rparr>) (\<lparr> user = OfUser (User (JStr ''https://example.org/octocat.png'') (JStr ''The Octocat'') JNull),
            repos = [\<lparr> repo_id = IdNum 7, repo_name = ''hello'', url = ''https://example.org/hello'' \<rparr>] \<rparr>))))
        (ReposRenderVisitor (repos (fst (fetchUser_then (\<lparr> message = JStr ''Not Found'', avatar_url = JUndefined, res_name = JUndefined,
         res_bio = JUndefined, repos_url = JUndefined \<rparr>) (\<lparr> user = OfUser (User (JStr ''https://example.org/octocat.png'') (JStr ''The Octocat'') JNull),
            repos = [\<lparr> repo_id = IdNum 7, repo_name = ''hello'', url = ''https://example.org/hello'' \<rparr>] \<rparr>))))) = Value JNull
   \<and> repos (app \<lparr> app = (\<lparr> user = OfUser (User (JStr ''https://example.org/octocat.png'') (JStr ''The Octocat'') JNull),
            repos = [\<lparr> repo_id = IdNum 7, repo_name = ''hello'', url = ''https://example.org/hello'' \<rparr>] \<rparr>)\<lparr>user := NotFound\<rparr>, inflight = [] \<rparr>)
       = repos (app \<lparr> app = (\<lparr> user = OfUser (User (JStr ''https://example.org/octocat.png'') (JStr ''The Octocat'') JNull),
            repos = [\<lparr> repo_id = IdNum 7, repo_name = ''hello'', url = ''https://example.org/hello'' \<rparr>] \<rparr>), inflight = [fetchUser ''nobody''] \<rparr>)"
proof -
  have h1: "message (\<lparr> message = JStr ''Not Found'', avatar_url = JUndefined, res_name = JUndefined,
         res_bio = JUndefined, repos_url = JUndefined \<rparr>) = JStr ''Not Found''"
    by simp
  have h2: "step (UserResponse 0 (\<lparr> message = JStr ''Not Found'', avatar_url = JUndefined, res_name = JUndefined,
         res_bio = JUndefined, repos_url = JUndefined \<rparr>))
        \<lparr> app = (\<lparr> user = OfUser (User (JStr ''https://example.org/octocat.png'') (JStr ''The Octocat'') JNull),
            repos = [\<lparr> repo_id = IdNum 7, repo_name = ''hello'', url = ''https://example.org/hello'' \<rparr>] \<rparr>), inflight = [fetchUser ''nobody''] \<rparr>
       = Some \<lparr> app = (\<lparr> user = OfUser (User (JStr ''https://example.org/octocat.png'') (JStr ''The Octocat'') JNull),
            repos = [\<lparr> repo_id = IdNum 7, repo_name = ''hello'', url = ''https://example.org/hello'' \<rparr>] \<rparr>)\<lparr>user := NotFound\<rparr>, inflight = [] \<rparr>"
    by (simp add: fetchUser_def fetchUser_then_def settle_def)
  note kept = not_found_keeps_repos
    [OF h1, of "\<lparr> user = OfUser (User (JStr ''https://example.org/octocat.png'') (JStr ''The Octocat'') JNull),
            repos = [\<lparr> repo_id = IdNum 7, repo_name = ''hello'', url = ''https://example.org/hello'' \<rparr>] \<rparr>" 0
       "\<lparr> app = (\<lparr> user = OfUser (User (JStr ''https://example.org/octocat.png'') (JStr ''The Octocat'') JNull),
            repos = [\<lparr> repo_id = IdNum 7, repo_name = ''hello'', url = ''https://example.org/hello'' \<rparr>] \<rparr>), inflight = [fetchUser ''nobody''] \<rparr>"
       "\<lparr> app = (\<lparr> user = OfUser (User (JStr ''https://example.org/octocat.png'') (JStr ''The Octocat'') JNull),
            repos = [\<lparr> repo_id = IdNum 7, repo_name = ''hello'', url = ''https://example.org/hello'' \<rparr>] \<rparr>)\<lparr>user := NotFound\<rparr>, inflight = [] \<rparr>"]
  from kept have c1: "repos (fst (fetchUser_then (\<lparr> message = JStr ''Not Found'', avatar_url = JUndefined, res_name = JUndefined,
         res_bio = JUndefined, repos_url = JUndefined \<rparr>) (\<lparr> user = OfUser (User (JStr ''https://example.org/octocat.png'') (JStr ''The Octocat'') JNull),
            repos = [\<lparr> repo_id = IdNum 7, repo_name = ''hello'', url = ''https://example.org/hello'' \<rparr>] \<rparr>)))
       = [\<lparr> repo_id = IdNum 7, repo_name = ''hello'', url = ''https://example.org/hello'' \<rparr>]"
    by simp
  from kept have c2: "accept (user (fst (fetchUser_then (\<lparr> message = JStr ''Not Found'', avatar_url = JUndefined, res_name = JUndefined,
         res_bio = JUndefined, repos_url = JUndefined \<rparr>) (\<lparr> user = OfUser (User (JStr ''https://example.org/octocat.png'') (JStr ''The Octocat'') JNull),
            repos = [\<lparr> repo_id = IdNum 7, repo_name = ''hello'', url = ''https://example.org/hello'' \<rparr>] \<rparr>))))
        (ReposRenderVisitor (repos (fst (fetchUser_then (\<lparr> message = JStr ''Not Found'', avatar_url = JUndefined, res_name = JUndefined,
         res_bio = JUndefined, repos_url = JUndefined \<rparr>) (\<lparr> user = OfUser (User (JStr ''https://example.org/octocat.png'') (JStr ''The Octocat'') JNull),
            repos = [\<lparr> repo_id = IdNum 7, repo_name = ''hello'', url = ''https://example.org/hello'' \<rparr>] \<rparr>))))) = Value JNull"
    by blast
  from kept h2 have c3: "repos (app \<lparr> app = (\<lparr> user = OfUser (User (JStr ''https://example.org/octocat.png'') (JStr ''The Octocat'') JNull),
            repos = [\<lparr> repo_id = IdNum 7, repo_name = ''hello'', url = ''https://example.org/hello'' \<rparr>] \<rparr>)\<lparr>user := NotFound\<rparr>, inflight = [] \<rparr>)
       = repos (app \<lparr> app = (\<lparr> user = OfUser (User (JStr ''https://example.org/octocat.png'') (JStr ''The Octocat'') JNull),
            repos = [\<lparr> repo_id = IdNum 7, repo_name = ''hello'', url = ''https://example.org/hello'' \<rparr>] \<rparr>), inflight = [fetchUser ''nobody''] \<rparr>)"
    by blast
  show ?thesis
    using h1 h2 c1 c2 c3 by blast
qed

section \<open>Reachable states and repeated submissions\<close>

text \<open>
  C9: in every state reached from the initial one by submissions, completions of
  \<open>fetchUser\<close> and \<open>fetchRepos\<close> and failed requests, in any order, the repo list has at
  most three entries.
\<close>

theorem repos_at_most_three:
  "run es initial_config = Some c \<Longrightarrow> length (repos (app c)) \<le> 3"
proof -
  assume "run es initial_config = Some c"
  moreover have "length (repos (app initial_config)) \<le> 3"
    by (simp add: initial_config_def initial_state_def)
  ultimately show ?thesis
    by (rule run_keeps_top3)
qed

theorem repos_at_most_three_witness:
  "run [Submit ''octocat'', UserResponse 0 (\<lparr> message = JUndefined, avatar_url = JStr ''https://example.org/octocat.png'',
         res_name = JStr ''The Octocat'', res_bio = JNull,
         repos_url = JStr ''https://api.github.com/users/octocat/repos'' \<rparr>), ReposResponse 0 ([ \<lparr> rr_id = IdNum 1, html_url = ''https://example.org/a'', rr_name = ''a'', stargazers_count = 5 \<rparr>,
            \<lparr> rr_id = IdNum 2, html_url = ''https://example.org/b'', rr_name = ''b'', stargazers_count = 20 \<rparr>,
            \<lparr> rr_id = IdNum 3, html_url = ''https://example.org/c'', rr_name = ''c'', stargazers_count = 1 \<rparr>,
            \<lparr> rr_id = IdNum 4, html_url = ''https://example.org/d'', rr_name = ''d'', stargazers_count = 9 \<rparr> ])] initial_config = Some (\<lparr> app = \<lparr> user = (OfUser (User (JStr ''https://example.org/octocat.png'') (JStr ''The Octocat'') JNull)), repos = ([ \<lparr> repo_id = IdNum 2, repo_name = ''b'', url = ''https://example.org/b'' \<rparr>,
                      \<lparr> repo_id = IdNum 4, repo_name = ''d'', url = ''https://example.org/d'' \<rparr>,
                      \<lparr> repo_id = IdNum 1, repo_name = ''a'', url = ''https://example.org/a'' \<rparr> ]) \<rparr>, inflight = [] \<rparr>)
   \<and> length (repos (app (\<lparr> app = \<lparr> user = (OfUser (User (JStr ''https://example.org/octocat.png'') (JStr ''The Octocat'') JNull)), repos = ([ \<lparr> repo_id = IdNum 2, repo_name = ''b'', url = ''https://example.org/b'' \<rparr>,
                      \<lparr> repo_id = IdNum 4, repo_name = ''d'', url = ''https://example.org/d'' \<rparr>,
                      \<lparr> repo_id = IdNum 1, repo_name = ''a'', url = ''https://example.org/a'' \<rparr> ]) \<rparr>, inflight = [] \<rparr>))) \<le> 3"
proof -
  have h: "run [Submit ''octocat'', UserResponse 0 (\<lparr> message = JUndefined, avatar_url = JStr ''https://example.org/octocat.png'',
         res_name = JStr ''The Octocat'', res_bio = JNull,
         repos_url = JStr ''https://api.github.com/users/octocat/repos'' \<rparr>), ReposResponse 0 ([ \<lparr> rr_id = IdNum 1, html_url = ''https://example.org/a'', rr_name = ''a'', stargazers_count = 5 \<rparr>,
            \<lparr> rr_id = IdNum 2, html_url = ''https://example.org/b'', rr_name = ''b'', stargazers_count = 20 \<rparr>,
            \<lparr> rr_id = IdNum 3, html_url = ''https://example.org/c'', rr_name = ''c'', stargazers_count = 1 \<rparr>,
            \<lparr> rr_id = IdNum 4, html_url = ''https://example.org/d'', rr_name = ''d'', stargazers_count = 9 \<rparr> ])] initial_config = Some (\<lparr> app = \<lparr> user = (OfUser (User (JStr ''https://example.org/octocat.png'') (JStr ''The Octocat'') JNull)), repos = ([ \<lparr> repo_id = IdNum 2, repo_name = ''b'', url = ''https://example.org/b'' \<rparr>,
                      \<lparr> repo_id = IdNum 4, repo_name = ''d'', url = ''https://example.org/d'' \<rparr>,
                      \<lparr> repo_id = IdNum 1, repo_name = ''a'', url = ''https://example.org/a'' \<rparr> ]) \<rparr>, inflight = [] \<rparr>)"
    by (simp add: initial_config_def initial_state_def submitForm_def fetchUser_def fetchRepos_def
          fetchUser_then_def fetchRepos_then_def settle_def array_sort_def by_stars_def to_Repo_def)
  show ?thesis
    using h repos_at_most_three [OF h] by blast
qed

text \<open>
  C7: with endpoints that answer the same request the same way, a submission made when
  nothing is in flight and carried to the end leaves nothing in flight, and submitting
  the same username again from there ends in the same state.
\<close>

theorem resubmission_idempotent:
  "inflight c = [] \<Longrightarrow>
     inflight (submit_resolved ep username c) = []
     \<and> submit_resolved ep username (submit_resolved ep username c) = submit_resolved ep username c"
  by (cases c)
     (auto simp: submit_resolved_def resolve_first_def submitForm_def fetchUser_def fetchRepos_def
                 fetchUser_then_def fetchRepos_then_def settle_def
           split: option.splits list.splits request.splits if_splits)

theorem resubmission_idempotent_witness:
  "inflight initial_config = []
   \<and> submit_resolved (\<lparr> user_endpoint = (\<lambda>u. if u = ''https://api.github.com/users/octocat'' then Some (\<lparr> message = JUndefined, avatar_url = JStr ''https://example.org/octocat.png'',
         res_name = JStr ''The Octocat'', res_bio = JNull,
         repos_url = JStr ''https://api.github.com/users/octocat/repos'' \<rparr>) else None),
         repos_endpoint = (\<lambda>u. Some ([ \<lparr> rr_id = IdNum 1, html_url = ''https://example.org/a'', rr_name = ''a'', stargazers_count = 5 \<rparr>,
            \<lparr> rr_id = IdNum 2, html_url = ''https://example.org/b'', rr_name = ''b'', stargazers_count = 20 \<rparr>,
            \<lparr> rr_id = IdNum 3, html_url = ''https://example.org/c'', rr_name = ''c'', stargazers_count = 1 \<rparr>,
            \<lparr> rr_id = IdNum 4, html_url = ''https://example.org/d'', rr_name = ''d'', stargazers_count = 9 \<rparr> ])) \<rparr>) ''octocat'' initial_config = (\<lparr> app = \<lparr> user = (OfUser (User (JStr ''https://example.org/octocat.png'') (JStr ''The Octocat'') JNull)), repos = ([ \<lparr> repo_id = IdNum 2, repo_name = ''b'', url = ''https://example.org/b'' \<rparr>,
                      \<lparr> repo_id = IdNum 4, repo_name = ''d'', url = ''https://example.org/d'' \<rparr>,
                      \<lparr> repo_id = IdNum 1, repo_name = ''a'', url = ''https://example.org/a'' \<rparr> ]) \<rparr>, inflight = [] \<rparr>)
   \<and> inflight (\<lparr> app = \<lparr> user = (OfUser (User (JStr ''https://example.org/octocat.png'') (JStr ''The Octocat'') JNull)), repos = ([ \<lparr> repo_id = IdNum 2, repo_name = ''b'', url = ''https://example.org/b'' \<rparr>,
                      \<lparr> repo_id = IdNum 4, repo_name = ''d'', url = ''https://example.org/d'' \<rparr>,
                      \<lparr> repo_id = IdNum 1, repo_name = ''a'', url = ''https://example.org/a'' \<rparr> ]) \<rparr>, inflight = [] \<rparr>) = []
   \<and> submit_resolved (\<lparr> user_endpoint = (\<lambda>u. if u = ''https://api.github.com/users/octocat'' then Some (\<lparr> message = JUndefined, avatar_url = JStr ''https://example.org/octocat.png'',
         res_name = JStr ''The Octocat'', res_bio = JNull,
         repos_url = JStr ''https://api.github.com/users/octocat/repos'' \<rparr>) else None),
         repos_endpoint = (\<lambda>u. Some ([ \<lparr> rr_id = IdNum 1, html_url = ''https://example.org/a'', rr_name = ''a'', stargazers_count = 5 \<rparr>,
            \<lparr> rr_id = IdNum 2, html_url = ''https://example.org/b'', rr_name = ''b'', stargazers_count = 20 \<rparr>,
            \<lparr> rr_id = IdNum 3, html_url = ''https://example.org/c'', rr_name = ''c'', stargazers_count = 1 \<rparr>,
            \<lparr> rr_id = IdNum 4, html_url = ''https://example.org/d'', rr_name = ''d'', stargazers_count = 9 \<rparr> ])) \<rparr>) ''octocat'' (\<lparr> app = \<lparr> user = (OfUser (User (JStr ''https://example.org/octocat.png'') (JStr ''The Octocat'') JNull)), repos = ([ \<lparr> repo_id = IdNum 2, repo_name = ''b'', url = ''https://example.org/b'' \<rparr>,
                      \<lparr> repo_id = IdNum 4, repo_name = ''d'', url = ''https://example.org/d'' \<rparr>,
                      \<lparr> repo_id = IdNum 1, repo_name = ''a'', url = ''https://example.org/a'' \<rparr> ]) \<rparr>, inflight = [] \<rparr>) = (\<lparr> app = \<lparr> user = (OfUser (User (JStr ''https://example.org/octocat.png'') (JStr ''The Octocat'') JNull)), repos = ([ \<lparr> repo_id = IdNum 2, repo_name = ''b'', url = ''https://example.org/b'' \<rparr>,
                      \<lparr> repo_id = IdNum 4, repo_name = ''d'', url = ''https://example.org/d'' \<rparr>,
                      \<lparr> repo_id = IdNum 1, repo_name = ''a'', url = ''https://example.org/a'' \<rparr> ]) \<rparr>, inflight = [] \<rparr>)"
proof -
  have h: "inflight initial_config = []"
    by (simp add: initial_config_def)
  have e: "submit_resolved (\<lparr> user_endpoint = (\<lambda>u. if u = ''https://api.github.com/users/octocat'' then Some (\<lparr> message = JUndefined, avatar_url = JStr ''https://example.org/octocat.png'',
         res_name = JStr ''The Octocat'', res_bio = JNull,
         repos_url = JStr ''https://api.github.com/users/octocat/repos'' \<rparr>) else None),
         repos_endpoint = (\<lambda>u. Some ([ \<lparr> rr_id = IdNum 1, html_url = ''https://example.org/a'', rr_name = ''a'', stargazers_count = 5 \<rparr>,
            \<lparr> rr_id = IdNum 2, html_url = ''https://example.org/b'', rr_name = ''b'', stargazers_count = 20 \<rparr>,
            \<lparr> rr_id = IdNum 3, html_url = ''https://example.org/c'', rr_name = ''c'', stargazers_count = 1 \<rparr>,
            \<lparr> rr_id = IdNum 4, html_url = ''https://example.org/d'', rr_name = ''d'', stargazers_count = 9 \<rparr> ])) \<rparr>) ''octocat'' initial_config = (\<lparr> app = \<lparr> user = (OfUser (User (JStr ''https://example.org/octocat.png'') (JStr ''The Octocat'') JNull)), repos = ([ \<lparr> repo_id = IdNum 2, repo_name = ''b'', url = ''https://example.org/b'' \<rparr>,
                      \<lparr> repo_id = IdNum 4, repo_name = ''d'', url = ''https://example.org/d'' \<rparr>,
                      \<lparr> repo_id = IdNum 1, repo_name = ''a'', url = ''https://example.org/a'' \<rparr> ]) \<rparr>, inflight = [] \<rparr>)"
    by (simp add: initial_config_def initial_state_def submit_resolved_def resolve_first_def
          submitForm_def fetchUser_def fetchRepos_def
          fetchUser_then_def fetchRepos_then_def settle_def array_sort_def by_stars_def to_Repo_def)
  note twice = resubmission_idempotent [OF h, of "\<lparr> user_endpoint = (\<lambda>u. if u = ''https://api.github.com/users/octocat'' then Some (\<lparr> message = JUndefined, avatar_url = JStr ''https://example.org/octocat.png'',
         res_name = JStr ''The Octocat'', res_bio = JNull,
         repos_url = JStr ''https://api.github.com/users/octocat/repos'' \<rparr>) else None),
         repos_endpoint = (\<lambda>u. Some ([ \<lparr> rr_id = IdNum 1, html_url = ''https://example.org/a'', rr_name = ''a'', stargazers_count = 5 \<rparr>,
            \<lparr> rr_id = IdNum 2, html_url = ''https://example.org/b'', rr_name = ''b'', stargazers_count = 20 \<rparr>,
            \<lparr> rr_id = IdNum 3, html_url = ''https://example.org/c'', rr_name = ''c'', stargazers_count = 1 \<rparr>,
            \<lparr> rr_id = IdNum 4, html_url = ''https://example.org/d'', rr_name = ''d'', stargazers_count = 9 \<rparr> ])) \<rparr>" "''octocat''"]
  from twice have c1: "inflight (\<lparr> app = \<lparr> user = (OfUser (User (JStr ''https://example.org/octocat.png'') (JStr ''The Octocat'') JNull)), repos = ([ \<lparr> repo_id = IdNum 2, repo_name = ''b'', url = ''https://example.org/b'' \<rparr>,
                      \<lparr> repo_id = IdNum 4, repo_name = ''d'', url = ''https://example.org/d'' \<rparr>,
                      \<lparr> repo_id = IdNum 1, repo_name = ''a'', url = ''https://example.org/a'' \<rparr> ]) \<rparr>, inflight = [] \<rparr>) = []"
    unfolding e by simp
  from twice have c2: "submit_resolved (\<lparr> user_endpoint = (\<lambda>u. if u = ''https://api.github.com/users/octocat'' then Some (\<lparr> message = JUndefined, avatar_url = JStr ''https://example.org/octocat.png'',
         res_name = JStr ''The Octocat'', res_bio = JNull,
         repos_url = JStr ''https://api.github.com/users/octocat/repos'' \<rparr>) else None),
         repos_endpoint = (\<lambda>u. Some ([ \<lparr> rr_id = IdNum 1, html_url = ''https://example.org/a'', rr_name = ''a'', stargazers_count = 5 \<rparr>,
            \<lparr> rr_id = IdNum 2, html_url = ''https://example.org/b'', rr_name = ''b'', stargazers_count = 20 \<rparr>,
            \<lparr> rr_id = IdNum 3, html_url = ''https://example.org/c'', rr_name = ''c'', stargazers_count = 1 \<rparr>,
            \<lparr> rr_id = IdNum 4, html_url = ''https://example.org/d'', rr_name = ''d'', stargazers_count = 9 \<rparr> ])) \<rparr>) ''octocat'' (\<lparr> app = \<lparr> user = (OfUser (User (JStr ''https://example.org/octocat.png'') (JStr ''The Octocat'') JNull)), repos = ([ \<lparr> repo_id = IdNum 2, repo_name = ''b'', url = ''https://example.org/b'' \<rparr>,
                      \<lparr> repo_id = IdNum 4, repo_name = ''d'', url = ''https://example.org/d'' \<rparr>,
                      \<lparr> repo_id = IdNum 1, repo_name = ''a'', url = ''https://example.org/a'' \<rparr> ]) \<rparr>, inflight = [] \<rparr>) = (\<lparr> app = \<lparr> user = (OfUser (User (JStr ''https://example.org/octocat.png'') (JStr ''The Octocat'') JNull)), repos = ([ \<lparr> repo_id = IdNum 2, repo_name = ''b'', url = ''https://example.org/b'' \<rparr>,
                      \<lparr> repo_id = IdNum 4, repo_name = ''d'', url = ''https://example.org/d'' \<rparr>,
                      \<lparr> repo_id = IdNum 1, repo_name = ''a'', url = ''https://example.org/a'' \<rparr> ]) \<rparr>, inflight = [] \<rparr>)"
    unfolding e by blast
  show ?thesis
    using h e c1 c2 by blast
qed

section \<open>The views between the two completions of a lookup\<close>

text \<open>
  C4, as stated, fails: the callback of \<open>fetchUser\<close> keeps the repo list, and \<open>visitUser\<close>
  of the repo-list visitor renders whatever the list holds. After a lookup of "octocat"
  has stored a summary, a second successful lookup, of "hubot", shows the profile of
  hubot above the link to octocat's repository while its own repository fetch is still
  in flight.
\<close>

theorem stale_repos_counterexample:
  "run [ Submit ''octocat'', UserResponse 0 (\<lparr> message = JUndefined, avatar_url = JStr ''https://example.org/octocat.png'',
         res_name = JStr ''The Octocat'', res_bio = JNull,
         repos_url = JStr ''https://api.github.com/users/octocat/repos'' \<rparr>), ReposResponse 0 [(\<lparr> rr_id = IdNum 7, html_url = ''https://example.org/hello'', rr_name = ''hello'', stargazers_count = 80 \<rparr>)],
         Submit ''hubot'', UserResponse 0 (\<lparr> message = JUndefined, avatar_url = JStr ''https://example.org/hubot.png'',
         res_name = JStr ''Hubot'', res_bio = JStr ''A robot'',
         repos_url = JStr ''https://api.github.com/users/hubot/repos'' \<rparr>) ] initial_config
     = Some \<lparr> app = \<lparr> user = (OfUser (User (JStr ''https://example.org/hubot.png'') (JStr ''Hubot'') (JStr ''A robot''))), repos = [(\<lparr> repo_id = IdNum 7, repo_name = ''hello'', url = ''https://example.org/hello'' \<rparr>)] \<rparr>,
               inflight = [ReposFetch (JStr ''https://api.github.com/users/hubot/repos'')] \<rparr>
   \<and> message (\<lparr> message = JUndefined, avatar_url = JStr ''https://example.org/hubot.png'',
         res_name = JStr ''Hubot'', res_bio = JStr ''A robot'',
         repos_url = JStr ''https://api.github.com/users/hubot/repos'' \<rparr>) \<noteq> JStr ''Not Found''
   \<and> repo_links (render_section \<lparr> user = (OfUser (User (JStr ''https://example.org/hubot.png'') (JStr ''Hubot'') (JStr ''A robot''))), repos = [(\<lparr> repo_id = IdNum 7, repo_name = ''hello'', url = ''https://example.org/hello'' \<rparr>)] \<rparr>)
       = [ Element ''a''
             [(''className'', JStr ''repo-link''), (''key'', JNum 7), (''href'', JStr ''https://example.org/hello'')]
             [Value (JStr ''hello'')] ]"
  by (simp add: initial_config_def initial_state_def submitForm_def fetchUser_def fetchRepos_def
        fetchUser_then_def fetchRepos_then_def settle_def array_sort_def to_Repo_def
        render_section_def userRenderVisitor_def ReposRenderVisitor_def repo_link_def)

text \<open>
  C4, amended: after the completion of a successful user lookup and until the next
  completion of any fetch, the profile view is exactly the avatar, name and bio of the
  response; the repo view is the title "Top repositories" followed by one link for each
  summary that the state held before that completion. The output has no repo link exactly
  when that list was empty, as it is on the first lookup from the initial state.
\<close>

theorem views_until_next_completion:
  assumes "step (UserResponse i res) c = Some c1"
    and "message res \<noteq> JStr ''Not Found''"
    and "run es c1 = Some c2"
    and "list_all quiet es"
  shows "accept (user (app c2)) userRenderVisitor
           = Fragment
               [ Element ''img''
                   [(''className'', JStr ''user-avatar''), (''src'', avatar_url res), (''alt'', JStr '''')] [],
                 Element ''div'' [(''className'', JStr ''user-name'')] [Value (res_name res)],
                 Element ''div'' [(''className'', JStr ''user-bio'')] [Value (res_bio res)] ]
         \<and> accept (user (app c2)) (ReposRenderVisitor (repos (app c2)))
           = Fragment
               [ Element ''div'' [(''className'', JStr ''repo-section-title'')]
                   [Value (JStr ''Top repositories'')],
                 NodeList (map repo_link (repos (app c))) ]
         \<and> (repo_links (render_section (app c2)) = []) = (repos (app c) = [])"
proof -
  from assms(3,4) have "app c2 = app c1"
    by (rule run_quiet)
  moreover have "app c1 = fst (fetchUser_then res (app c))"
    using step_UserResponse [OF assms(1)] by blast
  ultimately have st: "app c2 = (app c)\<lparr>user := OfUser (User (avatar_url res) (res_name res) (res_bio res))\<rparr>"
    using assms(2) by (simp add: fetchUser_then_def)
  show ?thesis
    by (simp add: st repo_links_section userRenderVisitor_def ReposRenderVisitor_def)
qed

theorem views_until_next_completion_witness:
  "step (UserResponse 0 (\<lparr> message = JUndefined, avatar_url = JStr ''https://example.org/octocat.png'',
         res_name = JStr ''The Octocat'', res_bio = JNull,
         repos_url = JStr ''https://api.github.com/users/octocat/repos'' \<rparr>)) (\<lparr> app = initial_state, inflight = [fetchUser ''octocat''] \<rparr>) = Some (\<lparr> app = \<lparr> user = (OfUser (User (JStr ''https://example.org/octocat.png'') (JStr ''The Octocat'') JNull)), repos = [] \<rparr>,
         inflight = [ReposFetch (JStr ''https://api.github.com/users/octocat/repos'')] \<rparr>)
   \<and> message (\<lparr> message = JUndefined, avatar_url = JStr ''https://example.org/octocat.png'',
         res_name = JStr ''The Octocat'', res_bio = JNull,
         repos_url = JStr ''https://api.github.com/users/octocat/repos'' \<rparr>) \<noteq> JStr ''Not Found''
   \<and> run [Submit ''hubot''] (\<lparr> app = \<lparr> user = (OfUser (User (JStr ''https://example.org/octocat.png'') (JStr ''The Octocat'') JNull)), repos = [] \<rparr>,
         inflight = [ReposFetch (JStr ''https://api.github.com/users/octocat/repos'')] \<rparr>) = Some (\<lparr> app = \<lparr> user = (OfUser (User (JStr ''https://example.org/octocat.png'') (JStr ''The Octocat'') JNull)), repos = [] \<rparr>,
         inflight = [ReposFetch (JStr ''https://api.github.com/users/octocat/repos''),
                     UserFetch ''https://api.github.com/users/hubot''] \<rparr>)
   \<and> list_all quiet [Submit ''hubot'']
   \<and> accept (user (app (\<lparr> app = \<lparr> user = (OfUser (User (JStr ''https://example.org/octocat.png'') (JStr ''The Octocat'') JNull)), repos = [] \<rparr>,
         inflight = [ReposFetch (JStr ''https://api.github.com/users/octocat/repos''),
                     UserFetch ''https://api.github.com/users/hubot''] \<rparr>))) userRenderVisitor
       = Fragment
           [ Element ''img''
               [(''className'', JStr ''user-avatar''), (''src'', JStr ''https://example.org/octocat.png''),
                (''alt'', JStr '''')] [],
             Element ''div'' [(''className'', JStr ''user-name'')] [Value (JStr ''The Octocat'')],
             Element ''div'' [(''className'', JStr ''user-bio'')] [Value JNull] ]
   \<and> accept (user (app (\<lparr> app = \<lparr> user = (OfUser (User (JStr ''https://example.org/octocat.png'') (JStr ''The Octocat'') JNull)), repos = [] \<rparr>,
         inflight = [ReposFetch (JStr ''https://api.github.com/users/octocat/repos''),
                     UserFetch ''https://api.github.com/users/hubot''] \<rparr>))) (ReposRenderVisitor (repos (app (\<lparr> app = \<lparr> user = (OfUser (User (JStr ''https://example.org/octocat.png'') (JStr ''The Octocat'') JNull)), repos = [] \<rparr>,
         inflight = [ReposFetch (JStr ''https://api.github.com/users/octocat/repos''),
                     UserFetch ''https://api.github.com/users/hubot''] \<rparr>))))
       = Fragment
           [ Element ''div'' [(''className'', JStr ''repo-section-title'')]
               [Value (JStr ''Top repositories'')],
             NodeList [] ]
   \<and> repo_links (render_section (app (\<lparr> app = \<lparr> user = (OfUser (User (JStr ''https://example.org/octocat.png'') (JStr ''The Octocat'') JNull)), repos = [] \<rparr>,
         inflight = [ReposFetch (JStr ''https://api.github.com/users/octocat/repos''),
                     UserFetch ''https://api.github.com/users/hubot''] \<rparr>))) = []"
proof -
  have h1: "step (UserResponse 0 (\<lparr> message = JUndefined, avatar_url = JStr ''https://example.org/octocat.png'',
         res_name = JStr ''The Octocat'', res_bio = JNull,
         repos_url = JStr ''https://api.github.com/users/octocat/repos'' \<rparr>)) (\<lparr> app = initial_state, inflight = [fetchUser ''octocat''] \<rparr>) = Some (\<lparr> app = \<lparr> user = (OfUser (User (JStr ''https://example.org/octocat.png'') (JStr ''The Octocat'') JNull)), repos = [] \<rparr>,
         inflight = [ReposFetch (JStr ''https://api.github.com/users/octocat/repos'')] \<rparr>)"
    by (simp add: fetchUser_def fetchRepos_def fetchUser_then_def settle_def initial_state_def)
  have h2: "message (\<lparr> message = JUndefined, avatar_url = JStr ''https://example.org/octocat.png'',
         res_name = JStr ''The Octocat'', res_bio = JNull,
         repos_url = JStr ''https://api.github.com/users/octocat/repos'' \<rparr>) \<noteq> JStr ''Not Found''"
    by simp
  have h3: "run [Submit ''hubot''] (\<lparr> app = \<lparr> user = (OfUser (User (JStr ''https://example.org/octocat.png'') (JStr ''The Octocat'') JNull)), repos = [] \<rparr>,
         inflight = [ReposFetch (JStr ''https://api.github.com/users/octocat/repos'')] \<rparr>) = Some (\<lparr> app = \<lparr> user = (OfUser (User (JStr ''https://example.org/octocat.png'') (JStr ''The Octocat'') JNull)), repos = [] \<rparr>,
         inflight = [ReposFetch (JStr ''https://api.github.com/users/octocat/repos''),
                     UserFetch ''https://api.github.com/users/hubot''] \<rparr>)"
    by (simp add: submitForm_def fetchUser_def)
  have h4: "list_all quiet [Submit ''hubot'']"
    by simp
  note shown = views_until_next_completion [OF h1 h2 h3 h4]
  from shown have c1: "accept (user (app (\<lparr> app = \<lparr> user = (OfUser (User (JStr ''https://example.org/octocat.png'') (JStr ''The Octocat'') JNull)), repos = [] \<rparr>,
         inflight = [ReposFetch (JStr ''https://api.github.com/users/octocat/repos''),
                     UserFetch ''https://api.github.com/users/hubot''] \<rparr>))) userRenderVisitor
       = Fragment
           [ Element ''img''
               [(''className'', JStr ''user-avatar''), (''src'', JStr ''https://example.org/octocat.png''),
                (''alt'', JStr '''')] [],
             Element ''div'' [(''className'', JStr ''user-name'')] [Value (JStr ''The Octocat'')],
             Element ''div'' [(''className'', JStr ''user-bio'')] [Value JNull] ]"
    by simp
  from shown have c2: "accept (user (app (\<lparr> app = \<lparr> user = (OfUser (User (JStr ''https://example.org/octocat.png'') (JStr ''The Octocat'') JNull)), repos = [] \<rparr>,
         inflight = [ReposFetch (JStr ''https://api.github.com/users/octocat/repos''),
                     UserFetch ''https://api.github.com/users/hubot''] \<rparr>))) (ReposRenderVisitor (repos (app (\<lparr> app = \<lparr> user = (OfUser (User (JStr ''https://example.org/octocat.png'') (JStr ''The Octocat'') JNull)), repos = [] \<rparr>,
         inflight = [ReposFetch (JStr ''https://api.github.com/users/octocat/repos''),
                     UserFetch ''https://api.github.com/users/hubot''] \<rparr>))))
       = Fragment
           [ Element ''div'' [(''className'', JStr ''repo-section-title'')]
               [Value (JStr ''Top repositories'')],
             NodeList [] ]"
    by (simp add: initial_state_def)
  from shown have c3: "repo_links (render_section (app (\<lparr> app = \<lparr> user = (OfUser (User (JStr ''https://example.org/octocat.png'') (JStr ''The Octocat'') JNull)), repos = [] \<rparr>,
         inflight = [ReposFetch (JStr ''https://api.github.com/users/octocat/repos''),
                     UserFetch ''https://api.github.com/users/hubot''] \<rparr>))) = []"
    by (simp add: initial_state_def)
  show ?thesis
    using h1 h2 h3 h4 c1 c2 c3 by blast
qed

end
